theory Spec2Isabelle
  imports Main "HOL-Library.Sublist"
begin

section \<open>JavaScript values the runners compute with\<close>

text \<open>
  The repository is a wrapper around Node's \<open>child_process\<close>. Two revisions of its single
  module are verified: \<open>src/src/index.ts\<close> (line prefixes, a caller-chosen \<open>stdio\<close>) and
  \<open>src/unnamed/part_000\<close> (output transforms, \<open>nopipe\<close>/\<open>silent\<close>, test seams). Names of the
  first revision carry the suffix \<open>_ix\<close>; names of the second are the source's own.

  Strings are byte strings. A buffer's \<open>toString()\<close> is the identity on them.
\<close>

definition newline :: char where
  "newline = CHR 0x0A"

text \<open>\<open>s.split("\n")\<close>: the pieces between newlines; never an empty array.\<close>

fun split_newline :: "string \<Rightarrow> string list" where
  "split_newline [] = [[]]"
| "split_newline (c # cs) =
     (if c = newline then [] # split_newline cs
      else (case split_newline cs of [] \<Rightarrow> [[c]] | l # ls \<Rightarrow> (c # l) # ls))"

text \<open>\<open>xs[0]\<close>: \<open>undefined\<close> (here \<open>None\<close>) on an empty array.\<close>

definition index0 :: "'a list \<Rightarrow> 'a option" where
  "index0 xs = (case xs of [] \<Rightarrow> None | x # _ \<Rightarrow> Some x)"

text \<open>Truthiness of the optional values the code tests with \<open>if\<close>, \<open>&&\<close> and \<open>||\<close>.\<close>

definition truthy_string :: "string \<Rightarrow> bool" where
  "truthy_string s = (s \<noteq> [])"

definition truthy_prefix :: "string option \<Rightarrow> bool" where
  "truthy_prefix p = (case p of None \<Rightarrow> False | Some s \<Rightarrow> truthy_string s)"

definition truthy_timeout :: "int option \<Rightarrow> bool" where
  "truthy_timeout t = (case t of None \<Rightarrow> False | Some n \<Rightarrow> n \<noteq> 0)"

text \<open>Numbers in template literals: an integer prints in decimal, \<open>null\<close> as \<open>null\<close>.\<close>

definition digit :: "nat \<Rightarrow> char" where
  "digit d = ''0123456789'' ! (d mod 10)"

function string_of_nat :: "nat \<Rightarrow> string" where
  "string_of_nat n =
     (if n < 10 then [digit n] else string_of_nat (n div 10) @ [digit (n mod 10)])"
  by pat_completeness auto
termination
  by (relation "measure id") auto

declare string_of_nat.simps [simp del]

definition string_of_number :: "int \<Rightarrow> string" where
  "string_of_number i =
     (if i < 0 then CHR ''-'' # string_of_nat (nat (- i)) else string_of_nat (nat i))"

definition string_of_exitCode :: "int option \<Rightarrow> string" where
  "string_of_exitCode c = (case c of None \<Rightarrow> ''null'' | Some n \<Rightarrow> string_of_number n)"

section \<open>The error type\<close>

text \<open>
  \<open>class ShellError extends Error\<close>: the constructor runs
  \<open>message = message && message.split("\n")[0]\<close> and hands the result to \<open>Error\<close>, whose
  message is the empty string when it is given \<open>undefined\<close>. The second revision also sets
  the object's \<open>name\<close> to the class name; no runner reads it and it is left out.
\<close>

datatype shell_error = Error (message: string)

definition ShellError :: "string \<Rightarrow> shell_error" where
  "ShellError message0 =
     (let m = (if truthy_string message0 then index0 (split_newline message0) else Some message0)
      in Error (case m of None \<Rightarrow> [] | Some s \<Rightarrow> s))"

section \<open>Node's child processes\<close>

datatype stdio_mode = Pipe | Ignore | Inherit

text \<open>
  \<open>StdioOptions\<close>: one disposition for all three streams, or an array with one entry per
  file descriptor. Of the entries Node accepts, those the repository uses are modelled.
\<close>

datatype StdioOptions = StdioString stdio_mode | StdioArray "stdio_mode list"

text \<open>The disposition of one file descriptor; Node fills a short array with \<open>pipe\<close>.\<close>

definition stdio_fd :: "StdioOptions \<Rightarrow> nat \<Rightarrow> stdio_mode" where
  "stdio_fd stdio fd =
     (case stdio of
        StdioString m \<Rightarrow> m
      | StdioArray ms \<Rightarrow> (if fd < length ms then ms ! fd else Pipe))"

text \<open>
  \<open>NodeJS.ProcessEnv\<close>: a dictionary from names to \<open>string | undefined\<close>. A key that is
  present with the value \<open>undefined\<close> maps to \<open>Some None\<close>.
\<close>

type_synonym ProcessEnv = "string \<rightharpoonup> string option"

record SpawnOptions =
  so_cwd :: "string option"
  so_env :: ProcessEnv
  so_shell :: bool
  so_stdio :: StdioOptions

record ExecSyncOptions =
  eo_cwd :: "string option"
  eo_env :: ProcessEnv
  eo_stdio :: StdioOptions
  eo_timeout :: "int option"

text \<open>A spawned child, as far as the runners look at it: whether its stream handles exist.\<close>

record ChildProcess =
  child_stdout :: bool
  child_stderr :: bool

type_synonym spawn_fn = "string \<Rightarrow> SpawnOptions \<Rightarrow> ChildProcess"

text \<open>
  Node's \<open>spawn\<close>: \<open>subprocess.stdout\<close> and \<open>subprocess.stderr\<close> are \<open>null\<close> unless the
  descriptor was spawned with \<open>pipe\<close>.
\<close>

definition node_spawn :: spawn_fn where
  "node_spawn command spawnOptions =
     \<lparr>child_stdout = (stdio_fd (so_stdio spawnOptions) 1 = Pipe),
      child_stderr = (stdio_fd (so_stdio spawnOptions) 2 = Pipe)\<rparr>"

text \<open>
  What \<open>execSync\<close> hands back: \<open>null\<close> when standard output was not captured, a string,
  or a \<open>Buffer\<close>. A buffer is an object and so always truthy, even when it is empty; a
  string is truthy when it is not empty.
\<close>

datatype exec_value = Null | Text string | Buffer string

definition truthy_value :: "exec_value \<Rightarrow> bool" where
  "truthy_value v = (case v of Null \<Rightarrow> False | Text s \<Rightarrow> truthy_string s | Buffer b \<Rightarrow> True)"

definition toString :: "exec_value \<Rightarrow> string" where
  "toString v = (case v of Null \<Rightarrow> [] | Text s \<Rightarrow> s | Buffer b \<Rightarrow> b)"

text \<open>The error \<open>execSync\<close> raises: its message, and the exit status Node attaches to it.\<close>

record exec_error =
  err_message :: string
  err_status :: "int option"

type_synonym execSync_fn = "string \<Rightarrow> ExecSyncOptions \<Rightarrow> exec_error + exec_value"

text \<open>The parent process object: its environment (writes to its streams are results).\<close>

record Process =
  proc_env :: ProcessEnv

section \<open>The asynchronous runner's promise and event handlers\<close>

text \<open>
  \<open>shellAsync\<close> returns \<open>new Promise((resolve, reject) => ...)\<close>. The executor spawns
  the child, registers the handlers and returns; afterwards the event loop delivers events
  one at a time. The state below is what the handlers share: the variable \<open>output\<close>
  (here \<open>output0\<close>), the promise, which listeners and timer exist, how often
  \<open>asyncProcess.kill()\<close> ran, and what the prefix pipes of \<open>index.ts\<close> wrote to the
  real process's streams.
\<close>

datatype promise = Pending | Resolved "string option" | Rejected shell_error

record async_state =
  output0 :: "string option"
  promise :: promise
  data_listener :: bool
  timer :: bool
  killed :: nat
  stdout_pipe :: "string option"
  stderr_pipe :: "string option"
  process_stdout :: "string list"
  process_stderr :: "string list"

text \<open>
  The events of one invocation: a chunk on the child's standard output or standard error,
  the child's \<open>error\<close> event (with \<open>error.toString()\<close>), its \<open>close\<close> event (with the exit
  code, \<open>null\<close> when a signal ended it), and the timer of \<open>setTimeout\<close> firing.
\<close>

datatype event =
    StdoutData string
  | StderrData string
  | ErrorEvent string
  | Close "int option"
  | Timeout

text \<open>A promise settles once: \<open>resolve\<close> and \<open>reject\<close> on a settled promise do nothing.\<close>

definition resolve :: "string option \<Rightarrow> async_state \<Rightarrow> async_state" where
  "resolve v s = (if promise s = Pending then s\<lparr>promise := Resolved v\<rparr> else s)"

definition reject :: "shell_error \<Rightarrow> async_state \<Rightarrow> async_state" where
  "reject e s = (if promise s = Pending then s\<lparr>promise := Rejected e\<rparr> else s)"

text \<open>\<open>prefixTransformStream(prefix)\<close>: what the transform pushes for one chunk.\<close>

definition prefixTransformStream :: "string \<Rightarrow> string \<Rightarrow> string" where
  "prefixTransformStream prefix0 chunk = prefix0 @ '' '' @ chunk"

text \<open>The handlers, in the order the executor registers them; both revisions agree.\<close>

definition on_error :: "string \<Rightarrow> string \<Rightarrow> async_state \<Rightarrow> async_state" where
  "on_error command error s =
     reject (ShellError (''Failed to start command: '' @ command @ ''; '' @ error)) s"

definition on_close :: "string \<Rightarrow> int option \<Rightarrow> async_state \<Rightarrow> async_state" where
  "on_close command exitCode s =
     (if exitCode = Some 0 then resolve (output0 s) s
      else reject (ShellError (''Command failed: '' @ command @ '' with exit code ''
                               @ string_of_exitCode exitCode)) s)"

definition on_data :: "string \<Rightarrow> async_state \<Rightarrow> async_state" where
  "on_data buffer s = s\<lparr>output0 := Some buffer\<rparr>"

definition on_timeout :: "string \<Rightarrow> async_state \<Rightarrow> async_state" where
  "on_timeout command s =
     reject (ShellError (''Command timeout: '' @ command)) (s\<lparr>killed := Suc (killed s)\<rparr>)"

text \<open>
  Delivery of one event. A chunk first passes the prefix pipe, when there is one, and then
  reaches the \<open>data\<close> listener, when one is attached; without a handle neither exists and
  the chunk goes wherever the child's descriptor points. The timer fires at most once.
\<close>

definition pipe_stdout :: "string \<Rightarrow> async_state \<Rightarrow> async_state" where
  "pipe_stdout chunk s =
     (case stdout_pipe s of
        None \<Rightarrow> s
      | Some p \<Rightarrow> s\<lparr>process_stdout := process_stdout s @ [prefixTransformStream p chunk]\<rparr>)"

definition pipe_stderr :: "string \<Rightarrow> async_state \<Rightarrow> async_state" where
  "pipe_stderr chunk s =
     (case stderr_pipe s of
        None \<Rightarrow> s
      | Some p \<Rightarrow> s\<lparr>process_stderr := process_stderr s @ [prefixTransformStream p chunk]\<rparr>)"

fun deliver :: "string \<Rightarrow> event \<Rightarrow> async_state \<Rightarrow> async_state" where
  "deliver command (StdoutData chunk) s =
     (let s' = pipe_stdout chunk s in if data_listener s' then on_data chunk s' else s')"
| "deliver command (StderrData chunk) s = pipe_stderr chunk s"
| "deliver command (ErrorEvent error) s = on_error command error s"
| "deliver command (Close exitCode) s = on_close command exitCode s"
| "deliver command Timeout s =
     (if timer s then on_timeout command (s\<lparr>timer := False\<rparr>) else s)"

fun run :: "string \<Rightarrow> async_state \<Rightarrow> event list \<Rightarrow> async_state" where
  "run command s [] = s"
| "run command s (e # es) = run command (deliver command e s) es"

section \<open>src/src/index.ts\<close>

text \<open>
  \<open>IShellOptions\<close>. The field \<open>shell\<close> is never read (the runner spawns with
  \<open>shell: true\<close>) and is left out; the flag \<open>async\<close> is false when absent.
\<close>

record IShellOptions_ix =
  cwd_ix :: "string option"
  env_ix :: "ProcessEnv option"
  stdio_ix :: "StdioOptions option"
  timeout_ix :: "int option"
  prefix_ix :: "string option"
  async_ix :: bool

record INormalizedShellOptions_ix =
  ncwd_ix :: "string option"
  nenv_ix :: ProcessEnv
  nstdio_ix :: StdioOptions
  ntimeout_ix :: "int option"
  nprefix_ix :: "string option"
  nasync_ix :: bool

text \<open>
  The executor of \<open>shellAsync\<close>: the state once it has run. With a prefix the child is
  spawned with \<open>stdio: "pipe"\<close>, so both handles exist when the pipes are set up.
\<close>

definition spawnOptions_ix :: "INormalizedShellOptions_ix \<Rightarrow> SpawnOptions" where
  "spawnOptions_ix options =
     \<lparr>so_cwd = ncwd_ix options, so_env = nenv_ix options, so_shell = True,
      so_stdio = (if truthy_prefix (nprefix_ix options) then StdioString Pipe
                  else nstdio_ix options)\<rparr>"

definition shellAsync_ix :: "string \<Rightarrow> INormalizedShellOptions_ix \<Rightarrow> async_state" where
  "shellAsync_ix command options =
     (let asyncProcess = node_spawn command (spawnOptions_ix options);
          stdout = child_stdout asyncProcess;
          pipes = (if truthy_prefix (nprefix_ix options) then nprefix_ix options else None)
      in \<lparr>output0 = None, promise = Pending, data_listener = stdout,
          timer = truthy_timeout (ntimeout_ix options), killed = 0,
          stdout_pipe = pipes, stderr_pipe = pipes,
          process_stdout = [], process_stderr = []\<rparr>)"

text \<open>\<open>shellSync\<close>: the value returned (\<open>None\<close> is \<open>null\<close>) or the error thrown.\<close>

definition execSyncOptions_ix :: "INormalizedShellOptions_ix \<Rightarrow> ExecSyncOptions" where
  "execSyncOptions_ix options =
     \<lparr>eo_cwd = ncwd_ix options, eo_env = nenv_ix options,
      eo_stdio = nstdio_ix options, eo_timeout = ntimeout_ix options\<rparr>"

definition shellSync_ix ::
  "execSync_fn \<Rightarrow> string \<Rightarrow> INormalizedShellOptions_ix \<Rightarrow> shell_error + string option" where
  "shellSync_ix execSync0 command options =
     (case execSync0 command (execSyncOptions_ix options) of
        Inr buffer \<Rightarrow> (if truthy_value buffer then Inr (Some (toString buffer)) else Inr None)
      | Inl error \<Rightarrow> Inl (ShellError (err_message error)))"

text \<open>The options \<open>shell\<close> derives before it dispatches; \<open>process\<close> is the global object.\<close>

definition normalizedOptions_ix :: "Process \<Rightarrow> IShellOptions_ix \<Rightarrow> INormalizedShellOptions_ix" where
  "normalizedOptions_ix process options =
     \<lparr>ncwd_ix = cwd_ix options,
      nenv_ix = [''FORCE_COLOR'' \<mapsto> Some ''1'']
                ++ (case env_ix options of Some e \<Rightarrow> e | None \<Rightarrow> proc_env process),
      nstdio_ix = (case stdio_ix options of Some io \<Rightarrow> io | None \<Rightarrow> StdioString Inherit),
      ntimeout_ix = timeout_ix options,
      nprefix_ix = prefix_ix options,
      nasync_ix = async_ix options\<rparr>"

datatype shell_return_ix = Promise_ix async_state | Returned_ix "shell_error + string option"

definition shell_ix ::
  "Process \<Rightarrow> execSync_fn \<Rightarrow> string \<Rightarrow> IShellOptions_ix \<Rightarrow> shell_return_ix" where
  "shell_ix process execSync0 command options =
     (let normalized = normalizedOptions_ix process options
      in if nasync_ix normalized then Promise_ix (shellAsync_ix command normalized)
         else Returned_ix (shellSync_ix execSync0 command normalized))"

section \<open>src/unnamed/part_000\<close>

type_synonym TransformFunction = "string \<Rightarrow> string"

text \<open>
  \<open>IShellOptions\<close>. An optional flag is a boolean, false when it is absent; every other
  optional field is an option.
\<close>

record IShellOptions =
  cwd :: "string option"
  env :: "ProcessEnv option"
  timeout :: "int option"
  async :: bool
  nopipe :: bool
  silent :: bool
  transform :: "TransformFunction option"
  parentProcess :: "Process option"
  spawn :: "spawn_fn option"
  execSync :: "execSync_fn option"

record INormalizedShellOptions =
  n_cwd :: "string option"
  n_env :: ProcessEnv
  n_timeout :: "int option"
  n_async :: bool
  n_nopipe :: bool
  n_silent :: bool
  n_transform :: "TransformFunction option"
  n_parentProcess :: Process
  n_spawn :: spawn_fn
  n_execSync :: execSync_fn
  n_stdio :: "stdio_mode list"

text \<open>
  The module \<open>./transforms\<close> is not among the sources. The two functions of it that the
  runners call are parameters of the model: \<open>transformString\<close>, which \<open>shellSync\<close> hands
  the transform and a text, and \<open>setupStdoutStderrStreams\<close>, of whose result \<open>shellAsync\<close>
  reads \<open>stdout\<close> and tests it for \<open>null\<close>. \<open>StdoutData\<close> events are the \<open>data\<close> events
  of the stream it returned.
\<close>

type_synonym transformString_fn = "TransformFunction \<Rightarrow> string \<Rightarrow> string"

record Streams =
  streams_stdout :: bool
  streams_stderr :: bool

type_synonym setup_fn = "INormalizedShellOptions \<Rightarrow> ChildProcess \<Rightarrow> Streams"

definition spawnOptions :: "INormalizedShellOptions \<Rightarrow> SpawnOptions" where
  "spawnOptions options =
     \<lparr>so_cwd = n_cwd options, so_env = n_env options, so_shell = True,
      so_stdio = StdioArray (n_stdio options)\<rparr>"

definition shellAsync :: "setup_fn \<Rightarrow> string \<Rightarrow> INormalizedShellOptions \<Rightarrow> async_state" where
  "shellAsync setupStdoutStderrStreams command options =
     (let asyncProcess = n_spawn options command (spawnOptions options);
          stdout = streams_stdout (setupStdoutStderrStreams options asyncProcess)
      in \<lparr>output0 = None, promise = Pending, data_listener = stdout,
          timer = truthy_timeout (n_timeout options), killed = 0,
          stdout_pipe = None, stderr_pipe = None,
          process_stdout = [], process_stderr = []\<rparr>)"

text \<open>
  \<open>shellSync\<close>: what it wrote to \<open>options.parentProcess.stdout\<close>, and the value returned
  (\<open>None\<close> is \<open>null\<close>) or the error thrown. Transform functions are total here.
\<close>

record sync_result =
  written :: "string list"
  completion :: "shell_error + string option"

definition execSyncOptions :: "INormalizedShellOptions \<Rightarrow> ExecSyncOptions" where
  "execSyncOptions options =
     \<lparr>eo_cwd = n_cwd options, eo_env = n_env options,
      eo_stdio = StdioArray (n_stdio options), eo_timeout = n_timeout options\<rparr>"

definition shellSync ::
  "transformString_fn \<Rightarrow> string \<Rightarrow> INormalizedShellOptions \<Rightarrow> sync_result" where
  "shellSync transformString command options =
     (case n_execSync options command (execSyncOptions options) of
        Inr buffer \<Rightarrow>
          (if truthy_value buffer then
             (let output = (case n_transform options of
                              Some f \<Rightarrow> transformString f (toString buffer)
                            | None \<Rightarrow> toString buffer)
              in \<lparr>written = (if \<not> n_silent options then [output] else []),
                  completion = Inr (Some output)\<rparr>)
           else \<lparr>written = [], completion = Inr None\<rparr>)
      | Inl error \<Rightarrow>
          (let message0 = (case n_transform options of
                             Some f \<Rightarrow> transformString f (err_message error)
                           | None \<Rightarrow> err_message error)
           in \<lparr>written = [], completion = Inl (ShellError message0)\<rparr>))"

text \<open>
  The options \<open>shell\<close> derives before it dispatches. \<open>process\<close> and \<open>execSync0\<close> are the
  global process object and Node's \<open>execSync\<close>, the defaults of the two hooks.
\<close>

definition normalizedOptions ::
  "Process \<Rightarrow> execSync_fn \<Rightarrow> IShellOptions \<Rightarrow> INormalizedShellOptions" where
  "normalizedOptions process execSync0 options =
     (let parentProcess0 = (case parentProcess options of Some p \<Rightarrow> p | None \<Rightarrow> process);
          stdio = (if nopipe options
                   then (if silent options then [Inherit, Ignore, Ignore]
                         else [Inherit, Inherit, Inherit])
                   else [Inherit, Pipe, Pipe])
      in \<lparr>n_cwd = cwd options,
          n_env = [''FORCE_COLOR'' \<mapsto> Some ''1'']
                  ++ (case env options of Some e \<Rightarrow> e | None \<Rightarrow> proc_env parentProcess0),
          n_timeout = timeout options,
          n_async = async options,
          n_nopipe = nopipe options,
          n_silent = silent options,
          n_transform = transform options,
          n_parentProcess = parentProcess0,
          n_spawn = (case spawn options of Some f \<Rightarrow> f | None \<Rightarrow> node_spawn),
          n_execSync = (case execSync options of Some f \<Rightarrow> f | None \<Rightarrow> execSync0),
          n_stdio = stdio\<rparr>)"

datatype shell_return = Promise async_state | Returned sync_result

definition shell ::
  "setup_fn \<Rightarrow> transformString_fn \<Rightarrow> Process \<Rightarrow> execSync_fn \<Rightarrow> string \<Rightarrow> IShellOptions
   \<Rightarrow> shell_return" where
  "shell setupStdoutStderrStreams transformString process execSync0 command options =
     (let normalized = normalizedOptions process execSync0 options
      in if n_async normalized
         then Promise (shellAsync setupStdoutStderrStreams command normalized)
         else Returned (shellSync transformString command normalized))"

section \<open>What a trace of events shows\<close>

text \<open>The chunks of a trace, per stream, and the most recent chunk on standard output.\<close>

fun stdout_chunks :: "event list \<Rightarrow> string list" where
  "stdout_chunks [] = []"
| "stdout_chunks (StdoutData chunk # es) = chunk # stdout_chunks es"
| "stdout_chunks (e # es) = stdout_chunks es"

fun stderr_chunks :: "event list \<Rightarrow> string list" where
  "stderr_chunks [] = []"
| "stderr_chunks (StderrData chunk # es) = chunk # stderr_chunks es"
| "stderr_chunks (e # es) = stderr_chunks es"

definition most_recent_chunk :: "event list \<Rightarrow> string option" where
  "most_recent_chunk es =
     (case stdout_chunks es of [] \<Rightarrow> None | c # cs \<Rightarrow> Some (last (c # cs)))"

section \<open>Example inputs\<close>

text \<open>
  A parent process, an exec primitive and a stream set-up to run the definitions on. The
  primitive answers like Node's: an empty buffer for a silent command, the bytes written
  otherwise, and for a failing command an error with the exit status and the message
  \<open>Command failed: \<close>, the command and, on further lines, what it wrote to standard error.
\<close>

definition example_process :: Process where
  "example_process = \<lparr>proc_env = [''HOME'' \<mapsto> Some ''/root'']\<rparr>"

definition example_execSync :: execSync_fn where
  "example_execSync command execOptions =
     (if command = ''true'' then Inr (Buffer [])
      else if command = ''echo hi'' then Inr (Buffer (''hi'' @ [newline]))
      else if command = ''exit 3''
        then Inl \<lparr>err_message = ''Command failed: exit 3'', err_status = Some 3\<rparr>
      else if command = ''false''
        then Inl \<lparr>err_message = ''Command failed: false'', err_status = Some 1\<rparr>
      else Inl \<lparr>err_message = ''Command failed: '' @ command @ [newline]
                                @ ''/bin/sh: 1: '' @ command @ '': not found'' @ [newline],
               err_status = Some 127\<rparr>)"

text \<open>
  Modelled from the spec: \<open>transformString\<close> of the missing module \<open>./transforms\<close>. The
  spec says of the synchronous runner that a supplied output-transform function is applied
  to the captured text, and the same transform to the error message.
\<close>

definition transformString_spec :: transformString_fn where
  "transformString_spec f text0 = f text0"

text \<open>A stream set-up that hands the child's own handles through.\<close>

definition example_setup :: setup_fn where
  "example_setup options asyncProcess =
     \<lparr>streams_stdout = child_stdout asyncProcess, streams_stderr = child_stderr asyncProcess\<rparr>"

definition upper_char :: "char \<Rightarrow> char" where
  "upper_char c =
     (case map_of (zip ''abcdefghijklmnopqrstuvwxyz'' ''ABCDEFGHIJKLMNOPQRSTUVWXYZ'') c of
        None \<Rightarrow> c
      | Some u \<Rightarrow> u)"

definition toUpperCase :: TransformFunction where
  "toUpperCase s = map upper_char s"

definition example_options :: IShellOptions where
  "example_options =
     \<lparr>cwd = None, env = None, timeout = None, async = True, nopipe = False, silent = False,
      transform = None, parentProcess = None, spawn = None, execSync = None\<rparr>"

definition example_options_ix :: IShellOptions_ix where
  "example_options_ix =
     \<lparr>cwd_ix = None, env_ix = None, stdio_ix = None, timeout_ix = None, prefix_ix = None,
      async_ix = True\<rparr>"

definition example_normalized :: INormalizedShellOptions where
  "example_normalized = normalizedOptions example_process example_execSync example_options"

definition example_normalized_ix :: INormalizedShellOptions_ix where
  "example_normalized_ix = normalizedOptions_ix example_process example_options_ix"

text \<open>A command that writes two chunks to standard output and one to standard error.\<close>

definition example_chunked_command :: string where
  "example_chunked_command = ''printf a; printf warn >&2; printf b''"

text \<open>A command that shrugs off the signal \<open>kill\<close> sends, and so ends with exit code 0.\<close>

definition example_surviving_command :: string where
  "example_surviving_command = ''trap : TERM; printf tick; sleep 1''"

definition example_two_line_command :: string where
  "example_two_line_command = ''echo a'' @ [newline] @ ''exit 3''"

section \<open>Lines and the error message\<close>

lemma index0_split_newline:
  "index0 (split_newline s) = Some (takeWhile (\<lambda>c. c \<noteq> newline) s)"
  by (induction s) (auto simp: index0_def split: list.splits)

lemma message_ShellError:
  "message (ShellError m) = takeWhile (\<lambda>c. c \<noteq> newline) m"
  by (cases m)
     (simp_all add: ShellError_def truthy_string_def index0_split_newline
               del: split_newline.simps)

lemma message_single_line: "newline \<notin> set m \<Longrightarrow> message (ShellError m) = m"
  by (auto simp: message_ShellError takeWhile_eq_all_conv)

lemma timeout_message:
  "message (ShellError (''Command timeout: '' @ c)) =
     ''Command timeout: '' @ takeWhile (\<lambda>x. x \<noteq> newline) c"
  by (simp add: message_ShellError newline_def)

lemma digit_not_newline: "digit d \<noteq> newline"
proof -
  have "d mod 10 < length ''0123456789''" by simp
  then have "digit d \<in> set ''0123456789''"
    unfolding digit_def by (rule nth_mem)
  then show ?thesis by (auto simp: newline_def)
qed

lemma string_of_nat_no_newline: "newline \<notin> set (string_of_nat n)"
proof (induction n rule: string_of_nat.induct)
  case (1 n)
  show ?case
  proof (cases "n < 10")
    case True
    then show ?thesis
      using digit_not_newline [of n] by (subst string_of_nat.simps) auto
  next
    case False
    then show ?thesis
      using "1.IH" digit_not_newline [of "n mod 10"] by (subst string_of_nat.simps) auto
  qed
qed

lemma string_of_exitCode_no_newline: "newline \<notin> set (string_of_exitCode exitCode)"
proof (cases exitCode)
  case None
  then show ?thesis
    by (simp add: string_of_exitCode_def newline_def)
next
  case (Some n)
  have "newline \<noteq> CHR ''-''"
    by (simp add: newline_def)
  then show ?thesis
    using Some string_of_nat_no_newline [of "nat n"] string_of_nat_no_newline [of "nat (- n)"]
    by (simp add: string_of_exitCode_def string_of_number_def)
qed

lemma failed_message_single_line:
  assumes "newline \<notin> set command"
  shows "message (ShellError (''Command failed: '' @ command @ '' with exit code ''
                            @ string_of_exitCode exitCode))
         = ''Command failed: '' @ command @ '' with exit code '' @ string_of_exitCode exitCode"
proof (rule message_single_line)
  show "newline \<notin> set (''Command failed: '' @ command @ '' with exit code ''
                            @ string_of_exitCode exitCode)"
    using assms string_of_exitCode_no_newline [of exitCode] by (auto simp: newline_def)
qed

section \<open>The event handlers, one event and many\<close>

lemmas handler_defs = on_error_def on_close_def on_data_def on_timeout_def resolve_def reject_def
  pipe_stdout_def pipe_stderr_def

lemma run_append: "run c s (xs @ ys) = run c (run c s xs) ys"
  by (induction xs arbitrary: s) simp_all

lemma deliver_settled: "promise s \<noteq> Pending \<Longrightarrow> promise (deliver c e s) = promise s"
  by (cases e) (simp_all add: handler_defs Let_def split: option.splits)

lemma run_settled: "promise s \<noteq> Pending \<Longrightarrow> promise (run c s es) = promise s"
  by (induction es arbitrary: s) (simp_all add: deliver_settled)

lemma deliver_data_listener: "data_listener (deliver c e s) = data_listener s"
  by (cases e) (simp_all add: handler_defs Let_def split: option.splits)

lemma run_data_listener: "data_listener (run c s es) = data_listener s"
  by (induction es arbitrary: s) (simp_all add: deliver_data_listener)

lemma deliver_pipes:
  "stdout_pipe (deliver c e s) = stdout_pipe s" "stderr_pipe (deliver c e s) = stderr_pipe s"
  by (cases e; simp add: handler_defs Let_def split: option.splits)+

lemma run_pipes:
  "stdout_pipe (run c s es) = stdout_pipe s" "stderr_pipe (run c s es) = stderr_pipe s"
  by (induction es arbitrary: s; simp add: deliver_pipes)+

lemma most_recent_chunk_Cons:
  "most_recent_chunk (e # es) =
     (case most_recent_chunk es of
        Some x \<Rightarrow> Some x
      | None \<Rightarrow> (case e of StdoutData chunk \<Rightarrow> Some chunk | _ \<Rightarrow> None))"
  by (cases e) (simp_all add: most_recent_chunk_def split: list.splits)

lemma output0_deliver:
  "output0 (deliver c e s) =
     (case e of StdoutData chunk \<Rightarrow> (if data_listener s then Some chunk else output0 s)
      | _ \<Rightarrow> output0 s)"
  by (cases e) (simp_all add: handler_defs Let_def split: option.splits)

lemma output0_run:
  "output0 (run c s es) =
     (if data_listener s
      then (case most_recent_chunk es of None \<Rightarrow> output0 s | Some x \<Rightarrow> Some x)
      else output0 s)"
proof (induction es arbitrary: s)
  case Nil
  then show ?case by (simp add: most_recent_chunk_def)
next
  case (Cons e es)
  show ?case
    by (cases e)
       (simp_all add: Cons.IH deliver_data_listener output0_deliver most_recent_chunk_Cons
             del: deliver.simps split: option.splits)
qed

lemma no_listener_output0:
  "\<not> data_listener s \<Longrightarrow> output0 (run c s es) = output0 s"
  by (simp add: output0_run)

lemma close_zero_pending:
  "promise s = Pending \<Longrightarrow> promise (deliver c (Close (Some 0)) s) = Resolved (output0 s)"
  by (simp add: handler_defs)

lemma close_nonzero_pending:
  "promise s = Pending \<Longrightarrow> exitCode \<noteq> Some 0 \<Longrightarrow>
   promise (deliver c (Close exitCode) s) =
     Rejected (ShellError (''Command failed: '' @ c @ '' with exit code '' @ string_of_exitCode exitCode))"
  by (simp add: handler_defs)

lemma run_close_zero:
  assumes "promise (run c s pre) = Pending"
  shows "promise (run c s (pre @ Close (Some 0) # post)) =
           Resolved (if data_listener s
                     then (case most_recent_chunk pre of None \<Rightarrow> output0 s | Some x \<Rightarrow> Some x)
                     else output0 s)"
proof -
  have "promise (deliver c (Close (Some 0)) (run c s pre)) = Resolved (output0 (run c s pre))"
    using assms by (rule close_zero_pending)
  then have "promise (run c s (pre @ Close (Some 0) # post)) = Resolved (output0 (run c s pre))"
    by (simp add: run_append run_settled)
  then show ?thesis by (simp add: output0_run)
qed

lemma run_close_nonzero:
  assumes "promise (run c s pre) = Pending" and "exitCode \<noteq> Some 0"
  shows "promise (run c s (pre @ Close exitCode # post)) =
     Rejected (ShellError (''Command failed: '' @ c @ '' with exit code '' @ string_of_exitCode exitCode))"
proof -
  have "promise (deliver c (Close exitCode) (run c s pre)) =
     Rejected (ShellError (''Command failed: '' @ c @ '' with exit code '' @ string_of_exitCode exitCode))"
    using assms by (rule close_nonzero_pending)
  then show ?thesis
    by (simp add: run_append run_settled)
qed

lemma deliver_resolved_value:
  "promise (deliver c e s) = Resolved v \<Longrightarrow> promise s = Resolved v \<or> v = output0 s"
  by (cases e) (auto simp: handler_defs Let_def split: option.splits if_splits)

lemma run_resolved_None:
  assumes "\<not> data_listener s" and "output0 s = None" and "promise s = Pending"
  shows "promise (run c s es) \<noteq> Resolved (Some x)"
  using assms
proof (induction es arbitrary: s)
  case Nil
  then show ?case by simp
next
  case (Cons e es)
  let ?s' = "deliver c e s"
  have keep: "\<not> data_listener ?s'" "output0 ?s' = None"
    using Cons.prems(1,2) by (simp_all add: deliver_data_listener output0_deliver split: event.splits)
  show ?case
  proof (cases "promise ?s' = Pending")
    case True
    then show ?thesis
      using Cons.IH [OF keep True] by simp
  next
    case False
    then have "promise (run c s (e # es)) = promise ?s'"
      by (simp add: run_settled del: deliver.simps)
    moreover have "promise ?s' \<noteq> Resolved (Some x)"
      using deliver_resolved_value [of c e s "Some x"] Cons.prems(2,3) by auto
    ultimately show ?thesis by simp
  qed
qed

lemma run_resolved_cases:
  assumes "promise s = Pending" and "promise (run c s es) = Resolved v"
  shows "v = output0 s \<or> (\<exists>chunk \<in> set (stdout_chunks es). v = Some chunk)"
  using assms
proof (induction es arbitrary: s)
  case Nil
  then show ?case by simp
next
  case (Cons e es)
  let ?s' = "deliver c e s"
  have out: "output0 ?s' = output0 s \<or> (\<exists>chunk. e = StdoutData chunk \<and> output0 ?s' = Some chunk)"
    by (cases e) (simp_all add: output0_deliver del: deliver.simps)
  show ?case
  proof (cases "promise ?s' = Pending")
    case True
    then have "v = output0 ?s' \<or> (\<exists>chunk \<in> set (stdout_chunks es). v = Some chunk)"
      using Cons.IH [of ?s'] Cons.prems(2) by simp
    then show ?thesis
      using out by (cases e) auto
  next
    case False
    then have "promise (run c s (e # es)) = promise ?s'"
      by (simp add: run_settled del: deliver.simps)
    then have "promise ?s' = Resolved v"
      using Cons.prems(2) by simp
    then show ?thesis
      using deliver_resolved_value [of c e s v] Cons.prems(1) by auto
  qed
qed

lemma deliver_rejected_cases:
  assumes "promise s = Pending" and "promise (deliver c e s) = Rejected err"
  shows "(\<exists>x. err = ShellError (''Failed to start command: '' @ c @ ''; '' @ x))
       \<or> (\<exists>code. err = ShellError (''Command failed: '' @ c @ '' with exit code ''
                                     @ string_of_exitCode code))
       \<or> err = ShellError (''Command timeout: '' @ c)"
  using assms
  by (cases e) (auto simp: handler_defs Let_def split: option.splits if_splits)

lemma run_rejected_cases:
  assumes "promise s = Pending" and "promise (run c s es) = Rejected err"
  shows "(\<exists>x. err = ShellError (''Failed to start command: '' @ c @ ''; '' @ x))
       \<or> (\<exists>code. err = ShellError (''Command failed: '' @ c @ '' with exit code ''
                                     @ string_of_exitCode code))
       \<or> err = ShellError (''Command timeout: '' @ c)"
  using assms
proof (induction es arbitrary: s)
  case Nil
  then show ?case by simp
next
  case (Cons e es)
  show ?case
  proof (cases "promise (deliver c e s) = Pending")
    case True
    then show ?thesis
      using Cons.IH [of "deliver c e s"] Cons.prems(2) by simp
  next
    case False
    then have "promise (run c s (e # es)) = promise (deliver c e s)"
      by (simp add: run_settled del: deliver.simps)
    then have "promise (deliver c e s) = Rejected err"
      using Cons.prems(2) by simp
    then show ?thesis
      using Cons.prems(1) by (rule deliver_rejected_cases [rotated])
  qed
qed

lemma timeout_pending:
  assumes "promise s = Pending" and "timer s"
  shows "promise (deliver c Timeout s) = Rejected (ShellError (''Command timeout: '' @ c))"
    and "killed (deliver c Timeout s) = Suc (killed s)"
    and "\<not> timer (deliver c Timeout s)"
  using assms by (simp_all add: handler_defs)

lemma deliver_other_timer:
  "e \<noteq> Timeout \<Longrightarrow> timer (deliver c e s) = timer s \<and> killed (deliver c e s) = killed s"
  by (cases e) (simp_all add: handler_defs Let_def split: option.splits)

lemma run_other_timer:
  "Timeout \<notin> set es \<Longrightarrow> timer (run c s es) = timer s \<and> killed (run c s es) = killed s"
proof (induction es arbitrary: s)
  case Nil
  then show ?case by simp
next
  case (Cons e es)
  then have "e \<noteq> Timeout" and "Timeout \<notin> set es"
    by auto
  then show ?case
    using Cons.IH [of "deliver c e s"] deliver_other_timer [of e c s] by simp
qed

lemma deliver_timer_off:
  "\<not> timer s \<Longrightarrow> \<not> timer (deliver c e s) \<and> killed (deliver c e s) = killed s"
  by (cases e) (simp_all add: handler_defs Let_def split: option.splits)

lemma run_timer_off:
  "\<not> timer s \<Longrightarrow> \<not> timer (run c s es) \<and> killed (run c s es) = killed s"
  by (induction es arbitrary: s) (simp_all add: deliver_timer_off del: deliver.simps)

lemma deliver_timeout_settles: "timer s \<Longrightarrow> promise (deliver c Timeout s) \<noteq> Pending"
  by (simp add: handler_defs)

lemma pending_no_timeout:
  "timer s \<Longrightarrow> promise (run c s es) = Pending \<Longrightarrow> Timeout \<notin> set es"
proof (induction es arbitrary: s)
  case Nil
  then show ?case by simp
next
  case (Cons e es)
  show ?case
  proof (cases "e = Timeout")
    case True
    then have "promise (deliver c e s) \<noteq> Pending"
      using Cons.prems(1) deliver_timeout_settles by blast
    then have "promise (run c s (e # es)) \<noteq> Pending"
      by (simp add: run_settled del: deliver.simps)
    then show ?thesis
      using Cons.prems(2) by simp
  next
    case False
    then have "timer (deliver c e s)"
      using Cons.prems(1) deliver_other_timer [of e c s] by simp
    then have "Timeout \<notin> set es"
      using Cons.IH [of "deliver c e s"] Cons.prems(2) by simp
    then show ?thesis
      using False by auto
  qed
qed

lemma run_timeout:
  assumes "timer s" and "killed s = 0" and "Timeout \<notin> set pre"
    and "promise (run c s pre) = Pending"
  shows "promise (run c s (pre @ Timeout # post)) = Rejected (ShellError (''Command timeout: '' @ c))"
    and "killed (run c s (pre @ Timeout # post)) = 1"
proof -
  let ?m = "run c s pre"
  have armed: "timer ?m" "killed ?m = 0"
    using assms(1-3) by (simp_all add: run_other_timer)
  have "promise (deliver c Timeout ?m) = Rejected (ShellError (''Command timeout: '' @ c))"
    using assms(4) armed(1) by (rule timeout_pending(1))
  then show "promise (run c s (pre @ Timeout # post)) = Rejected (ShellError (''Command timeout: '' @ c))"
    by (simp add: run_append run_settled del: deliver.simps)
  have "killed (deliver c Timeout ?m) = 1" "\<not> timer (deliver c Timeout ?m)"
    using timeout_pending(2,3)[OF assms(4) armed(1)] armed(2) by simp_all
  then show "killed (run c s (pre @ Timeout # post)) = 1"
    by (simp add: run_append run_timer_off del: deliver.simps)
qed

lemma process_stdout_deliver:
  "process_stdout (deliver c e s) =
     process_stdout s @ (case stdout_pipe s of None \<Rightarrow> []
                         | Some p \<Rightarrow> map (prefixTransformStream p) (stdout_chunks [e]))"
  by (cases e) (simp_all add: handler_defs Let_def split: option.splits)

lemma process_stderr_deliver:
  "process_stderr (deliver c e s) =
     process_stderr s @ (case stderr_pipe s of None \<Rightarrow> []
                         | Some p \<Rightarrow> map (prefixTransformStream p) (stderr_chunks [e]))"
  by (cases e) (simp_all add: handler_defs Let_def split: option.splits)

lemma stdout_chunks_Cons: "stdout_chunks (e # es) = stdout_chunks [e] @ stdout_chunks es"
  by (cases e) simp_all

lemma stderr_chunks_Cons: "stderr_chunks (e # es) = stderr_chunks [e] @ stderr_chunks es"
  by (cases e) simp_all

lemma process_stdout_run:
  "process_stdout (run c s es) =
     process_stdout s @ (case stdout_pipe s of None \<Rightarrow> []
                         | Some p \<Rightarrow> map (prefixTransformStream p) (stdout_chunks es))"
proof (induction es arbitrary: s)
  case Nil
  then show ?case by (simp split: option.splits)
next
  case (Cons e es)
  show ?case
    by (simp add: Cons.IH process_stdout_deliver deliver_pipes stdout_chunks_Cons [of e es]
             del: deliver.simps stdout_chunks.simps split: option.splits)
qed

lemma process_stderr_run:
  "process_stderr (run c s es) =
     process_stderr s @ (case stderr_pipe s of None \<Rightarrow> []
                         | Some p \<Rightarrow> map (prefixTransformStream p) (stderr_chunks es))"
proof (induction es arbitrary: s)
  case Nil
  then show ?case by (simp split: option.splits)
next
  case (Cons e es)
  show ?case
    by (simp add: Cons.IH process_stderr_deliver deliver_pipes stderr_chunks_Cons [of e es]
             del: deliver.simps stderr_chunks.simps split: option.splits)
qed

lemma prefix_prefixTransformStream: "prefix (p @ '' '') (prefixTransformStream p chunk)"
  by (simp add: prefixTransformStream_def)

section \<open>The runners and the options\<close>

lemma shellAsync_init:
  "output0 (shellAsync st c opts) = None"
  "promise (shellAsync st c opts) = Pending"
  "data_listener (shellAsync st c opts) = streams_stdout (st opts (n_spawn opts c (spawnOptions opts)))"
  "timer (shellAsync st c opts) = truthy_timeout (n_timeout opts)"
  "killed (shellAsync st c opts) = 0"
  by (simp_all add: shellAsync_def Let_def)

lemma shellAsync_ix_init:
  "output0 (shellAsync_ix c opts) = None"
  "promise (shellAsync_ix c opts) = Pending"
  "data_listener (shellAsync_ix c opts) = child_stdout (node_spawn c (spawnOptions_ix opts))"
  "timer (shellAsync_ix c opts) = truthy_timeout (ntimeout_ix opts)"
  "killed (shellAsync_ix c opts) = 0"
  "process_stdout (shellAsync_ix c opts) = []"
  "process_stderr (shellAsync_ix c opts) = []"
  "stdout_pipe (shellAsync_ix c opts) = (if truthy_prefix (nprefix_ix opts) then nprefix_ix opts else None)"
  "stderr_pipe (shellAsync_ix c opts) = (if truthy_prefix (nprefix_ix opts) then nprefix_ix opts else None)"
  by (simp_all add: shellAsync_ix_def Let_def)

lemma shellSync_throws:
  "n_execSync options command (execSyncOptions options) = Inl error \<Longrightarrow>
   completion (shellSync transformString command options) =
     Inl (ShellError (case n_transform options of
                        Some f \<Rightarrow> transformString f (err_message error)
                      | None \<Rightarrow> err_message error))"
  by (simp add: shellSync_def Let_def)

lemma shellSync_returns:
  "n_execSync options command (execSyncOptions options) = Inr buffer \<Longrightarrow>
   completion (shellSync transformString command options) =
     Inr (if truthy_value buffer
          then Some (case n_transform options of
                       Some f \<Rightarrow> transformString f (toString buffer)
                     | None \<Rightarrow> toString buffer)
          else None)"
  by (simp add: shellSync_def Let_def)

lemma shellSync_ix_throws:
  "execSync_import command (execSyncOptions_ix options) = Inl error \<Longrightarrow>
   shellSync_ix execSync_import command options = Inl (ShellError (err_message error))"
  by (simp add: shellSync_ix_def)

lemma shellSync_ix_returns:
  "execSync_import command (execSyncOptions_ix options) = Inr buffer \<Longrightarrow>
   shellSync_ix execSync_import command options =
     Inr (if truthy_value buffer then Some (toString buffer) else None)"
  by (simp add: shellSync_ix_def)

lemma singleton_add_lookup:
  "([k \<mapsto> x] ++ m) name = (case m name of Some v \<Rightarrow> Some v | None \<Rightarrow> (if name = k then Some x else None))"
  by (simp add: map_add_def split: option.splits)

lemma singleton_add_dom: "k \<in> dom ([k \<mapsto> x] ++ m)"
  by simp

lemma n_env_normalizedOptions:
  "n_env (normalizedOptions process execSync_import options)
     = [''FORCE_COLOR'' \<mapsto> Some ''1'']
       ++ (case env options of
             Some e \<Rightarrow> e
           | None \<Rightarrow> proc_env (case parentProcess options of Some p \<Rightarrow> p | None \<Rightarrow> process))"
  by (simp add: normalizedOptions_def Let_def)

lemma nenv_ix_normalizedOptions_ix:
  "nenv_ix (normalizedOptions_ix process options)
     = [''FORCE_COLOR'' \<mapsto> Some ''1'']
       ++ (case env_ix options of Some e \<Rightarrow> e | None \<Rightarrow> proc_env process)"
  by (simp add: normalizedOptions_ix_def)

lemma n_stdio_normalizedOptions:
  "n_stdio (normalizedOptions process execSync_import options)
     = (if nopipe options
        then (if silent options then [Inherit, Ignore, Ignore] else [Inherit, Inherit, Inherit])
        else [Inherit, Pipe, Pipe])"
  by (simp add: normalizedOptions_def Let_def)

text \<open>
  The definitions a concrete run unfolds.
\<close>

lemmas example_defs = example_normalized_def example_normalized_ix_def example_options_def
  example_options_ix_def example_process_def example_setup_def normalizedOptions_def
  normalizedOptions_ix_def example_execSync_def example_two_line_command_def
  example_surviving_command_def

lemmas runner_defs = shellAsync_def shellAsync_ix_def spawnOptions_def spawnOptions_ix_def
  node_spawn_def stdio_fd_def truthy_timeout_def truthy_prefix_def truthy_string_def
  shellSync_def shellSync_ix_def execSyncOptions_def execSyncOptions_ix_def truthy_value_def
  toString_def transformString_spec_def prefixTransformStream_def

lemmas error_defs = ShellError_def index0_def newline_def string_of_exitCode_def
  string_of_number_def string_of_nat.simps digit_def

lemmas upper_defs = toUpperCase_def upper_char_def

section \<open>The claims\<close>

text \<open>
  C1, as amended. If the promise is still pending when the child's \<open>close\<close> event
  arrives with exit code 0, the promise resolves, whatever happens afterwards, with the
  most recent chunk seen on the standard-output stream the runner listens to, or with
  \<open>null\<close> when it saw none (no chunk came, or there is no stream to listen to). Earlier
  chunks are dropped. This holds in both revisions.
\<close>

theorem C1_close_zero_resolves_last_chunk:
  "(promise (run command (shellAsync setupStdoutStderrStreams command options) before) = Pending
    \<longrightarrow> promise (run command (shellAsync setupStdoutStderrStreams command options)
                  (before @ Close (Some 0) # after))
        = Resolved (if streams_stdout (setupStdoutStderrStreams options (n_spawn options command (spawnOptions options)))
                    then most_recent_chunk before else None))
   \<and> (promise (run command (shellAsync_ix command options_ix) before) = Pending
    \<longrightarrow> promise (run command (shellAsync_ix command options_ix)
                  (before @ Close (Some 0) # after))
        = Resolved (if child_stdout (node_spawn command (spawnOptions_ix options_ix))
                    then most_recent_chunk before else None))"
  by (simp add: run_close_zero shellAsync_init shellAsync_ix_init split: option.splits)

text \<open>
  C1, an instance: two chunks on standard output with a chunk on standard error between
  them, then \<open>close\<close> with code 0 and a late timer; the promise resolves with the second
  chunk.
\<close>

theorem C1_close_zero_resolves_last_chunk_witness:
  "promise (run example_chunked_command
       (shellAsync example_setup example_chunked_command
          (example_normalized\<lparr>n_timeout := Some 5000\<rparr>))
       [StdoutData ''a'', StderrData ''warn'', StdoutData ''b'']) = Pending
   \<and> promise (run example_chunked_command
       (shellAsync example_setup example_chunked_command
          (example_normalized\<lparr>n_timeout := Some 5000\<rparr>))
       ([StdoutData ''a'', StderrData ''warn'', StdoutData ''b''] @ Close (Some 0) # [Timeout]))
     = Resolved (Some ''b'')
   \<and> promise (run example_chunked_command
       (shellAsync_ix example_chunked_command
          (example_normalized_ix\<lparr>nstdio_ix := StdioString Pipe, ntimeout_ix := Some 5000\<rparr>))
       [StdoutData ''a'', StderrData ''warn'', StdoutData ''b'']) = Pending
   \<and> promise (run example_chunked_command
       (shellAsync_ix example_chunked_command
          (example_normalized_ix\<lparr>nstdio_ix := StdioString Pipe, ntimeout_ix := Some 5000\<rparr>))
       ([StdoutData ''a'', StderrData ''warn'', StdoutData ''b''] @ Close (Some 0) # [Timeout]))
     = Resolved (Some ''b'')"
proof -
  let ?c = example_chunked_command
  let ?n = "example_normalized\<lparr>n_timeout := Some 5000\<rparr>"
  let ?o = "example_normalized_ix\<lparr>nstdio_ix := StdioString Pipe, ntimeout_ix := Some 5000\<rparr>"
  let ?pre = "[StdoutData ''a'', StderrData ''warn'', StdoutData ''b'']"
  have p1: "promise (run ?c (shellAsync example_setup ?c ?n) ?pre) = Pending"
    by (simp add: example_defs runner_defs handler_defs Let_def)
  have p2: "promise (run ?c (shellAsync_ix ?c ?o) ?pre) = Pending"
    by (simp add: example_defs runner_defs handler_defs Let_def)
  have l1: "streams_stdout (example_setup ?n (n_spawn ?n ?c (spawnOptions ?n)))"
    by (simp add: example_defs runner_defs)
  have l2: "child_stdout (node_spawn ?c (spawnOptions_ix ?o))"
    by (simp add: example_defs runner_defs)
  have m: "most_recent_chunk ?pre = Some ''b''"
    by (simp add: most_recent_chunk_def)
  show ?thesis
    using C1_close_zero_resolves_last_chunk
            [where command = "?c" and setupStdoutStderrStreams = example_setup
               and options = "?n" and before = "?pre" and after = "[Timeout]"
               and options_ix = "?o"]
          p1 p2 l1 l2 m
    by (simp del: append.simps run.simps)
qed

text \<open>
  C1 as stated fails: with a timeout configured, the timer can fire before the \<open>close\<close>
  event is delivered. The command here writes a chunk, outlives the signal that \<open>kill\<close>
  sends and closes with exit code 0, yet the promise is rejected with the timeout error.
\<close>

theorem C1_timeout_before_close_rejects:
  "promise (run example_surviving_command
      (shellAsync example_setup example_surviving_command
         (example_normalized\<lparr>n_timeout := Some 100\<rparr>))
      [StdoutData ''tick'', Timeout, Close (Some 0)])
   = Rejected (Error ''Command timeout: trap : TERM; printf tick; sleep 1'')"
  by (simp add: example_defs runner_defs error_defs handler_defs Let_def)

text \<open>
  C2, as amended. Asynchronous runner, both revisions: a \<open>close\<close> event whose exit code
  is not 0 and that finds the promise pending rejects it with the \<open>ShellError\<close> built
  from \<open>Command failed: \<close>, the command, \<open> with exit code \<close> and the code. When the
  command has no newline the error's message is that whole text, so it contains the command
  and the code. Synchronous runner: when the exec primitive raises, the runner throws the
  \<open>ShellError\<close> built from the primitive's message (passed through the transform when one
  is set, in the second revision); it adds neither the exit code nor the command itself.
\<close>

theorem C2_nonzero_exit_fails:
  "(promise (run command (shellAsync setupStdoutStderrStreams command options) before) = Pending
      \<and> exitCode \<noteq> Some 0
    \<longrightarrow> promise (run command (shellAsync setupStdoutStderrStreams command options)
                  (before @ Close exitCode # after))
        = Rejected (ShellError (''Command failed: '' @ command @ '' with exit code ''
                                @ string_of_exitCode exitCode)))
   \<and> (promise (run command (shellAsync_ix command options_ix) before) = Pending
      \<and> exitCode \<noteq> Some 0
    \<longrightarrow> promise (run command (shellAsync_ix command options_ix) (before @ Close exitCode # after))
        = Rejected (ShellError (''Command failed: '' @ command @ '' with exit code ''
                                @ string_of_exitCode exitCode)))
   \<and> (newline \<notin> set command
    \<longrightarrow> message (ShellError (''Command failed: '' @ command @ '' with exit code ''
                              @ string_of_exitCode exitCode))
          = ''Command failed: '' @ command @ '' with exit code '' @ string_of_exitCode exitCode
        \<and> sublist command
            (message (ShellError (''Command failed: '' @ command @ '' with exit code ''
                                  @ string_of_exitCode exitCode)))
        \<and> sublist (string_of_exitCode exitCode)
            (message (ShellError (''Command failed: '' @ command @ '' with exit code ''
                                  @ string_of_exitCode exitCode))))
   \<and> (n_execSync options command (execSyncOptions options) = Inl error
    \<longrightarrow> completion (shellSync transformString command options)
        = Inl (ShellError (case n_transform options of
                             Some f \<Rightarrow> transformString f (err_message error)
                           | None \<Rightarrow> err_message error)))
   \<and> (execSync_import command (execSyncOptions_ix options_ix) = Inl error
    \<longrightarrow> shellSync_ix execSync_import command options_ix = Inl (ShellError (err_message error)))"
proof -
  let ?m = "''Command failed: '' @ command @ '' with exit code '' @ string_of_exitCode exitCode"
  have async: "promise (run command s before) = Pending \<and> exitCode \<noteq> Some 0
      \<longrightarrow> promise (run command s (before @ Close exitCode # after)) = Rejected (ShellError ?m)" for s
    using run_close_nonzero [of command s before exitCode after] by blast
  have line: "newline \<notin> set command \<longrightarrow> message (ShellError ?m) = ?m"
    using failed_message_single_line [of command exitCode] by blast
  have inside: "sublist command ?m" "sublist (string_of_exitCode exitCode) ?m"
    by (rule sublist_appendI, metis append.assoc sublist_append_leftI)
  have sync: "n_execSync options command (execSyncOptions options) = Inl error
      \<longrightarrow> completion (shellSync transformString command options)
          = Inl (ShellError (case n_transform options of
                               Some f \<Rightarrow> transformString f (err_message error)
                             | None \<Rightarrow> err_message error))"
    using shellSync_throws [of options command error transformString] by blast
  have sync_ix: "execSync_import command (execSyncOptions_ix options_ix) = Inl error
      \<longrightarrow> shellSync_ix execSync_import command options_ix = Inl (ShellError (err_message error))"
    using shellSync_ix_throws [of execSync_import command options_ix error] by blast
  show ?thesis
    using async [of "shellAsync setupStdoutStderrStreams command options"]
          async [of "shellAsync_ix command options_ix"] line inside sync sync_ix
    by presburger
qed

text \<open>
  C2, an instance: the command \<open>exit 3\<close>, closing with code 3, and the error the exec
  primitive raises for it.
\<close>

theorem C2_nonzero_exit_fails_witness:
  "promise (run ''exit 3'' (shellAsync example_setup ''exit 3'' example_normalized) []) = Pending
   \<and> promise (run ''exit 3'' (shellAsync example_setup ''exit 3'' example_normalized)
        ([] @ Close (Some 3) # []))
      = Rejected (Error ''Command failed: exit 3 with exit code 3'')
   \<and> promise (run ''exit 3'' (shellAsync_ix ''exit 3'' example_normalized_ix)
        ([] @ Close (Some 3) # []))
      = Rejected (Error ''Command failed: exit 3 with exit code 3'')
   \<and> newline \<notin> set ''exit 3''
   \<and> sublist ''exit 3'' ''Command failed: exit 3 with exit code 3''
   \<and> sublist (string_of_exitCode (Some 3)) ''Command failed: exit 3 with exit code 3''
   \<and> n_execSync example_normalized ''exit 3'' (execSyncOptions example_normalized)
      = Inl \<lparr>err_message = ''Command failed: exit 3'', err_status = Some 3\<rparr>
   \<and> completion (shellSync transformString_spec ''exit 3'' example_normalized) = Inl (Error ''Command failed: exit 3'')
   \<and> shellSync_ix example_execSync ''exit 3'' example_normalized_ix
      = Inl (Error ''Command failed: exit 3'')"
proof -
  let ?e = "\<lparr>err_message = ''Command failed: exit 3'', err_status = Some 3\<rparr>"
  have p: "promise (run ''exit 3'' (shellAsync example_setup ''exit 3'' example_normalized) [])
             = Pending"
          "promise (run ''exit 3'' (shellAsync_ix ''exit 3'' example_normalized_ix) []) = Pending"
    by (simp_all add: shellAsync_init shellAsync_ix_init)
  have n: "newline \<notin> set ''exit 3''"
    by (simp add: newline_def)
  have c: "string_of_exitCode (Some 3) = ''3''"
    by (simp add: error_defs)
  have m: "ShellError ''Command failed: exit 3 with exit code 3''
             = Error ''Command failed: exit 3 with exit code 3''"
          "ShellError ''Command failed: exit 3'' = Error ''Command failed: exit 3''"
    by (simp_all add: error_defs truthy_string_def)
  have x: "n_execSync example_normalized ''exit 3'' (execSyncOptions example_normalized) = Inl ?e"
          "example_execSync ''exit 3'' (execSyncOptions_ix example_normalized_ix) = Inl ?e"
          "n_transform example_normalized = None"
    by (simp_all add: example_defs)
  show ?thesis
    using C2_nonzero_exit_fails
            [where command = "''exit 3''" and setupStdoutStderrStreams = example_setup
               and options = example_normalized and options_ix = example_normalized_ix
               and before = "[]" and after = "[]" and exitCode = "Some 3" and error = "?e"
               and execSync_import = example_execSync and transformString = transformString_spec]
          p n c m x
    by simp
qed

text \<open>
  C2 as stated fails twice. A command of two lines that closes with code 3: the error keeps
  the first line of the message only, which ends inside the command, so it contains neither
  the exit code nor the whole command. And the synchronous runner on the command
  \<open>false\<close>, where the exec primitive raises what Node's \<open>execSync\<close> raises (status 1,
  message \<open>Command failed: false\<close>): the thrown message does not contain the exit code.
\<close>

theorem C2_message_without_exit_code:
  "promise (run example_two_line_command
      (shellAsync example_setup example_two_line_command example_normalized) [Close (Some 3)])
     = Rejected (Error ''Command failed: echo a'')
   \<and> \<not> sublist (string_of_exitCode (Some 3)) ''Command failed: echo a''
   \<and> \<not> sublist example_two_line_command ''Command failed: echo a''
   \<and> example_execSync ''false'' (execSyncOptions example_normalized)
     = Inl \<lparr>err_message = ''Command failed: false'', err_status = Some 1\<rparr>
   \<and> completion (shellSync transformString_spec ''false'' example_normalized) = Inl (Error ''Command failed: false'')
   \<and> \<not> sublist (string_of_exitCode (Some 1)) ''Command failed: false''"
  by (simp add: example_defs runner_defs error_defs handler_defs Let_def sublist_Cons_right)

text \<open>
  C3. The normalized environment is the caller's environment when one is supplied and the
  parent process's environment otherwise, laid over the single binding of \<open>FORCE_COLOR\<close>
  to \<open>1\<close>: every name bound in the chosen environment keeps the binding it has there,
  \<open>FORCE_COLOR\<close> gets \<open>1\<close> when the chosen environment does not bind it, and no other
  name is bound. So \<open>FORCE_COLOR\<close> is a key of every normalized environment, and that
  environment is what both runners pass on. Both revisions.
\<close>

theorem C3_environment_has_FORCE_COLOR:
  "n_env (normalizedOptions process execSync_import options) name
     = (case (case env options of
                Some e \<Rightarrow> e
              | None \<Rightarrow> proc_env (case parentProcess options of Some p \<Rightarrow> p | None \<Rightarrow> process))
             name of
          Some v \<Rightarrow> Some v
        | None \<Rightarrow> (if name = ''FORCE_COLOR'' then Some (Some ''1'') else None))
   \<and> ''FORCE_COLOR'' \<in> dom (n_env (normalizedOptions process execSync_import options))
   \<and> so_env (spawnOptions (normalizedOptions process execSync_import options))
     = n_env (normalizedOptions process execSync_import options)
   \<and> eo_env (execSyncOptions (normalizedOptions process execSync_import options))
     = n_env (normalizedOptions process execSync_import options)
   \<and> nenv_ix (normalizedOptions_ix process options_ix) name
     = (case (case env_ix options_ix of Some e \<Rightarrow> e | None \<Rightarrow> proc_env process) name of
          Some v \<Rightarrow> Some v
        | None \<Rightarrow> (if name = ''FORCE_COLOR'' then Some (Some ''1'') else None))
   \<and> ''FORCE_COLOR'' \<in> dom (nenv_ix (normalizedOptions_ix process options_ix))"
proof (intro conjI)
  show "n_env (normalizedOptions process execSync_import options) name
     = (case (case env options of
                Some e \<Rightarrow> e
              | None \<Rightarrow> proc_env (case parentProcess options of Some p \<Rightarrow> p | None \<Rightarrow> process))
             name of
          Some v \<Rightarrow> Some v
        | None \<Rightarrow> (if name = ''FORCE_COLOR'' then Some (Some ''1'') else None))"
    unfolding n_env_normalizedOptions by (rule singleton_add_lookup)
  show "''FORCE_COLOR'' \<in> dom (n_env (normalizedOptions process execSync_import options))"
    unfolding n_env_normalizedOptions by (rule singleton_add_dom)
  show "so_env (spawnOptions (normalizedOptions process execSync_import options))
     = n_env (normalizedOptions process execSync_import options)"
    by (simp add: spawnOptions_def)
  show "eo_env (execSyncOptions (normalizedOptions process execSync_import options))
     = n_env (normalizedOptions process execSync_import options)"
    by (simp add: execSyncOptions_def)
  show "nenv_ix (normalizedOptions_ix process options_ix) name
     = (case (case env_ix options_ix of Some e \<Rightarrow> e | None \<Rightarrow> proc_env process) name of
          Some v \<Rightarrow> Some v
        | None \<Rightarrow> (if name = ''FORCE_COLOR'' then Some (Some ''1'') else None))"
    unfolding nenv_ix_normalizedOptions_ix by (rule singleton_add_lookup)
  show "''FORCE_COLOR'' \<in> dom (nenv_ix (normalizedOptions_ix process options_ix))"
    unfolding nenv_ix_normalizedOptions_ix by (rule singleton_add_dom)
qed

text \<open>
  C4. For every message string handed to the \<open>ShellError\<close> constructor, the error's message
  is the part of that string before its first newline: the longest prefix without a
  newline. A string of several lines keeps its first line only, whatever follows the
  newline.
\<close>

theorem C4_ShellError_first_line:
  "message (ShellError m) = takeWhile (\<lambda>c. c \<noteq> newline) m
   \<and> newline \<notin> set (message (ShellError m))
   \<and> prefix (message (ShellError m)) m
   \<and> message (ShellError (l @ newline # rest)) = message (ShellError l)"
proof -
  have first: "message (ShellError m) = takeWhile (\<lambda>c. c \<noteq> newline) m" for m
    by (rule message_ShellError)
  have no_nl: "newline \<notin> set (takeWhile (\<lambda>c. c \<noteq> newline) m)"
    by (auto dest: set_takeWhileD)
  have pre: "prefix (takeWhile (\<lambda>c. c \<noteq> newline) m) m"
    by (metis prefixI takeWhile_dropWhile_id)
  have cut: "takeWhile (\<lambda>c. c \<noteq> newline) (l @ newline # rest)
             = takeWhile (\<lambda>c. c \<noteq> newline) l"
    by (induction l) simp_all
  show ?thesis
    using no_nl pre cut by (simp add: first)
qed

text \<open>
  C5, as amended. With a transform supplied, the synchronous runner applies it, through
  \<open>transformString\<close>, to the captured text it returns and to the primitive's error
  message, of which it throws the \<open>ShellError\<close>. The asynchronous runner itself applies
  the transform to nothing: a rejection carries one of its three fixed messages, built from
  the command alone, and a resolved value is \<open>null\<close> or a chunk just as the stream it
  listens to delivered it.
\<close>

theorem C5_transform_in_sync_runner_only:
  "n_transform options = Some f \<longrightarrow>
     (n_execSync options command (execSyncOptions options) = Inr buffer \<and> truthy_value buffer
        \<longrightarrow> completion (shellSync transformString command options) = Inr (Some (transformString f (toString buffer))))
     \<and> (n_execSync options command (execSyncOptions options) = Inl error
        \<longrightarrow> completion (shellSync transformString command options) = Inl (ShellError (transformString f (err_message error))))
     \<and> (promise (run command (shellAsync setupStdoutStderrStreams command options) events)
          = Rejected err
        \<longrightarrow> (\<exists>x. err = ShellError (''Failed to start command: '' @ command @ ''; '' @ x))
            \<or> (\<exists>code. err = ShellError (''Command failed: '' @ command @ '' with exit code ''
                                          @ string_of_exitCode code))
            \<or> err = ShellError (''Command timeout: '' @ command))
     \<and> (promise (run command (shellAsync setupStdoutStderrStreams command options) events)
          = Resolved v
        \<longrightarrow> v = None \<or> (\<exists>chunk \<in> set (stdout_chunks events). v = Some chunk))"
proof (intro impI conjI)
  assume t: "n_transform options = Some f"
  {
    assume "n_execSync options command (execSyncOptions options) = Inr buffer \<and> truthy_value buffer"
    then show "completion (shellSync transformString command options) = Inr (Some (transformString f (toString buffer)))"
      using t shellSync_returns [of options command buffer transformString] by simp
  }
  {
    assume "n_execSync options command (execSyncOptions options) = Inl error"
    then show "completion (shellSync transformString command options) = Inl (ShellError (transformString f (err_message error)))"
      using t shellSync_throws [of options command error transformString] by simp
  }
  {
    assume "promise (run command (shellAsync setupStdoutStderrStreams command options) events)
          = Rejected err"
    then show "(\<exists>x. err = ShellError (''Failed to start command: '' @ command @ ''; '' @ x))
            \<or> (\<exists>code. err = ShellError (''Command failed: '' @ command @ '' with exit code ''
                                          @ string_of_exitCode code))
            \<or> err = ShellError (''Command timeout: '' @ command)"
      by (rule run_rejected_cases [rotated]) (simp add: shellAsync_init)
  }
  {
    assume "promise (run command (shellAsync setupStdoutStderrStreams command options) events)
          = Resolved v"
    then show "v = None \<or> (\<exists>chunk \<in> set (stdout_chunks events). v = Some chunk)"
      using run_resolved_cases
              [of "shellAsync setupStdoutStderrStreams command options" command events v]
      by (simp add: shellAsync_init)
  }
qed

text \<open>
  C5, an instance: the upper-casing transform on \<open>echo hi\<close> and on \<open>exit 3\<close>, with
  \<open>transformString\<close> as the spec describes it.
\<close>

theorem C5_transform_in_sync_runner_only_witness:
  "n_transform (example_normalized\<lparr>n_transform := Some toUpperCase\<rparr>) = Some toUpperCase
   \<and> n_execSync (example_normalized\<lparr>n_transform := Some toUpperCase\<rparr>) ''echo hi''
        (execSyncOptions (example_normalized\<lparr>n_transform := Some toUpperCase\<rparr>))
      = Inr (Buffer (''hi'' @ [newline]))
   \<and> truthy_value (Buffer (''hi'' @ [newline]))
   \<and> completion (shellSync transformString_spec ''echo hi'' (example_normalized\<lparr>n_transform := Some toUpperCase\<rparr>))
      = Inr (Some (''HI'' @ [newline]))
   \<and> n_execSync (example_normalized\<lparr>n_transform := Some toUpperCase\<rparr>) ''exit 3''
        (execSyncOptions (example_normalized\<lparr>n_transform := Some toUpperCase\<rparr>))
      = Inl \<lparr>err_message = ''Command failed: exit 3'', err_status = Some 3\<rparr>
   \<and> completion (shellSync transformString_spec ''exit 3'' (example_normalized\<lparr>n_transform := Some toUpperCase\<rparr>))
      = Inl (Error ''COMMAND FAILED: EXIT 3'')
   \<and> promise (run ''printf bye''
        (shellAsync example_setup ''printf bye''
           (example_normalized\<lparr>n_transform := Some toUpperCase\<rparr>))
        [StdoutData ''bye'', Close (Some 0)])
      = Resolved (Some ''bye'')"
proof -
  let ?o = "example_normalized\<lparr>n_transform := Some toUpperCase\<rparr>"
  let ?e = "\<lparr>err_message = ''Command failed: exit 3'', err_status = Some 3\<rparr>"
  have t: "n_transform ?o = Some toUpperCase"
    by simp
  have b: "n_execSync ?o ''echo hi'' (execSyncOptions ?o) = Inr (Buffer (''hi'' @ [newline]))"
          "truthy_value (Buffer (''hi'' @ [newline]))"
          "toUpperCase (toString (Buffer (''hi'' @ [newline]))) = ''HI'' @ [newline]"
    by (simp_all add: example_defs truthy_value_def toString_def upper_defs newline_def)
  have x: "n_execSync ?o ''exit 3'' (execSyncOptions ?o) = Inl ?e"
          "ShellError (toUpperCase (err_message ?e)) = Error ''COMMAND FAILED: EXIT 3''"
    by (simp_all add: example_defs upper_defs error_defs truthy_string_def)
  have r: "promise (run ''printf bye'' (shellAsync example_setup ''printf bye'' ?o)
             [StdoutData ''bye'', Close (Some 0)]) = Resolved (Some ''bye'')"
    by (simp add: example_defs runner_defs handler_defs Let_def)
  have sync_ok: "completion (shellSync transformString_spec ''echo hi'' ?o) = Inr (Some (''HI'' @ [newline]))"
    using C5_transform_in_sync_runner_only
            [where options = "?o" and f = toUpperCase and command = "''echo hi''"
               and transformString = transformString_spec
               and buffer = "Buffer (''hi'' @ [newline])"]
          t b
    by (simp add: transformString_spec_def)
  have sync_err: "completion (shellSync transformString_spec ''exit 3'' ?o) = Inl (Error ''COMMAND FAILED: EXIT 3'')"
    using C5_transform_in_sync_runner_only
            [where options = "?o" and f = toUpperCase and command = "''exit 3''" and error = "?e"
               and transformString = transformString_spec]
          t x
    by (simp add: transformString_spec_def)
  show ?thesis
    using t b(1,2) x(1) r sync_ok sync_err by simp
qed

text \<open>
  C5 as stated fails: with the upper-casing transform supplied, the asynchronous runner
  rejects a run that closes with code 3 with the message in its original case, not with
  the upper-cased message the transform would give.
\<close>

theorem C5_async_rejection_not_transformed:
  "n_transform (example_normalized\<lparr>n_transform := Some toUpperCase\<rparr>) = Some toUpperCase
   \<and> promise (run ''exit 3''
        (shellAsync example_setup ''exit 3'' (example_normalized\<lparr>n_transform := Some toUpperCase\<rparr>))
        [Close (Some 3)])
      = Rejected (Error ''Command failed: exit 3 with exit code 3'')
   \<and> ShellError (transformString_spec toUpperCase ''Command failed: exit 3 with exit code 3'')
      = Error ''COMMAND FAILED: EXIT 3 WITH EXIT CODE 3''"
  by (simp add: example_defs runner_defs error_defs handler_defs upper_defs Let_def)

text \<open>
  C6. With a timeout configured, when the timer fires while the promise is pending (the
  command is still running), the runner calls \<open>kill\<close> on the child, once, and the promise
  is rejected with the error built from \<open>Command timeout: \<close> and the command; its
  message starts with \<open>Command timeout: \<close>. Once the promise has settled, by the timeout
  or by anything else, no later event changes it, the command's own \<open>close\<close> included.
  Both revisions.
\<close>

theorem C6_timeout_rejects_and_settled_stays:
  "(truthy_timeout (n_timeout options)
      \<and> promise (run command (shellAsync setupStdoutStderrStreams command options) before) = Pending
    \<longrightarrow> promise (run command (shellAsync setupStdoutStderrStreams command options)
                  (before @ Timeout # after))
          = Rejected (ShellError (''Command timeout: '' @ command))
        \<and> killed (run command (shellAsync setupStdoutStderrStreams command options)
                  (before @ Timeout # after)) = 1)
   \<and> (truthy_timeout (ntimeout_ix options_ix)
      \<and> promise (run command (shellAsync_ix command options_ix) before) = Pending
    \<longrightarrow> promise (run command (shellAsync_ix command options_ix) (before @ Timeout # after))
          = Rejected (ShellError (''Command timeout: '' @ command))
        \<and> killed (run command (shellAsync_ix command options_ix) (before @ Timeout # after)) = 1)
   \<and> prefix ''Command timeout: '' (message (ShellError (''Command timeout: '' @ command)))
   \<and> (promise (run command (shellAsync setupStdoutStderrStreams command options) before) \<noteq> Pending
    \<longrightarrow> promise (run command (shellAsync setupStdoutStderrStreams command options)
                  (before @ after))
        = promise (run command (shellAsync setupStdoutStderrStreams command options) before))
   \<and> (promise (run command (shellAsync_ix command options_ix) before) \<noteq> Pending
    \<longrightarrow> promise (run command (shellAsync_ix command options_ix) (before @ after))
        = promise (run command (shellAsync_ix command options_ix) before))"
proof -
  have msg: "prefix ''Command timeout: '' (message (ShellError (''Command timeout: '' @ command)))"
    unfolding timeout_message by simp
  have fire: "timer s \<and> killed s = 0 \<and> promise (run command s before) = Pending
      \<longrightarrow> promise (run command s (before @ Timeout # after))
            = Rejected (ShellError (''Command timeout: '' @ command))
          \<and> killed (run command s (before @ Timeout # after)) = 1" for s
    using run_timeout [of s before command after] pending_no_timeout [of s command before]
    by blast
  have stay: "promise (run command s before) \<noteq> Pending
      \<longrightarrow> promise (run command s (before @ after)) = promise (run command s before)" for s
    by (simp add: run_append run_settled)
  show ?thesis
    using fire [of "shellAsync setupStdoutStderrStreams command options"]
          fire [of "shellAsync_ix command options_ix"]
          stay [of "shellAsync setupStdoutStderrStreams command options"]
          stay [of "shellAsync_ix command options_ix"] msg
    by (simp add: shellAsync_init shellAsync_ix_init)
qed

text \<open>
  C6, an instance: a timeout of 100 ms and a command that survives the signal; one chunk,
  the timer, then the child's \<open>close\<close> with code 0.
\<close>

theorem C6_timeout_rejects_and_settled_stays_witness:
  "truthy_timeout (n_timeout (example_normalized\<lparr>n_timeout := Some 100\<rparr>))
   \<and> truthy_timeout (ntimeout_ix (example_normalized_ix\<lparr>ntimeout_ix := Some 100\<rparr>))
   \<and> promise (run example_surviving_command
        (shellAsync example_setup example_surviving_command
           (example_normalized\<lparr>n_timeout := Some 100\<rparr>))
        ([StdoutData ''tick''] @ Timeout # [Close (Some 0)]))
      = Rejected (Error ''Command timeout: trap : TERM; printf tick; sleep 1'')
   \<and> killed (run example_surviving_command
        (shellAsync example_setup example_surviving_command
           (example_normalized\<lparr>n_timeout := Some 100\<rparr>))
        ([StdoutData ''tick''] @ Timeout # [Close (Some 0)])) = 1
   \<and> promise (run example_surviving_command
        (shellAsync_ix example_surviving_command
           (example_normalized_ix\<lparr>ntimeout_ix := Some 100\<rparr>))
        ([StdoutData ''tick''] @ Timeout # [Close (Some 0)]))
      = Rejected (Error ''Command timeout: trap : TERM; printf tick; sleep 1'')
   \<and> promise (run example_surviving_command
        (shellAsync example_setup example_surviving_command
           (example_normalized\<lparr>n_timeout := Some 100\<rparr>))
        [StdoutData ''tick'', Timeout]) \<noteq> Pending
   \<and> promise (run example_surviving_command
        (shellAsync example_setup example_surviving_command
           (example_normalized\<lparr>n_timeout := Some 100\<rparr>))
        ([StdoutData ''tick'', Timeout] @ [Close (Some 0)]))
      = promise (run example_surviving_command
        (shellAsync example_setup example_surviving_command
           (example_normalized\<lparr>n_timeout := Some 100\<rparr>))
        [StdoutData ''tick'', Timeout])"
proof -
  let ?c = example_surviving_command
  let ?o = "example_normalized\<lparr>n_timeout := Some 100\<rparr>"
  let ?oi = "example_normalized_ix\<lparr>ntimeout_ix := Some 100\<rparr>"
  have t: "truthy_timeout (n_timeout ?o)" "truthy_timeout (ntimeout_ix ?oi)"
    by (simp_all add: truthy_timeout_def)
  have e: "ShellError (''Command timeout: '' @ ?c)
             = Error ''Command timeout: trap : TERM; printf tick; sleep 1''"
    by (simp add: example_surviving_command_def error_defs truthy_string_def)
  have p1: "promise (run ?c (shellAsync example_setup ?c ?o) [StdoutData ''tick'']) = Pending"
    by (simp add: example_defs runner_defs handler_defs Let_def)
  have p2: "promise (run ?c (shellAsync_ix ?c ?oi) [StdoutData ''tick'']) = Pending"
    by (simp add: example_defs runner_defs handler_defs Let_def)
  have p3: "promise (run ?c (shellAsync example_setup ?c ?o) [StdoutData ''tick'', Timeout])
              \<noteq> Pending"
    by (simp add: example_defs runner_defs handler_defs Let_def)
  have fired:
    "promise (run ?c (shellAsync example_setup ?c ?o) ([StdoutData ''tick''] @ Timeout # [Close (Some 0)]))
       = Rejected (Error ''Command timeout: trap : TERM; printf tick; sleep 1'')
     \<and> killed (run ?c (shellAsync example_setup ?c ?o)
          ([StdoutData ''tick''] @ Timeout # [Close (Some 0)])) = 1
     \<and> promise (run ?c (shellAsync_ix ?c ?oi) ([StdoutData ''tick''] @ Timeout # [Close (Some 0)]))
       = Rejected (Error ''Command timeout: trap : TERM; printf tick; sleep 1'')"
    using C6_timeout_rejects_and_settled_stays
            [where options = "?o" and options_ix = "?oi" and command = "?c"
               and setupStdoutStderrStreams = example_setup
               and before = "[StdoutData ''tick'']" and after = "[Close (Some 0)]"]
          t p1 p2
    unfolding e by blast
  have stays:
    "promise (run ?c (shellAsync example_setup ?c ?o) ([StdoutData ''tick'', Timeout] @ [Close (Some 0)]))
       = promise (run ?c (shellAsync example_setup ?c ?o) [StdoutData ''tick'', Timeout])"
    using C6_timeout_rejects_and_settled_stays
            [where options = "?o" and options_ix = "?oi" and command = "?c"
               and setupStdoutStderrStreams = example_setup
               and before = "[StdoutData ''tick'', Timeout]" and after = "[Close (Some 0)]"]
          p3
    by blast
  show ?thesis
    using t fired p3 stays by blast
qed

text \<open>
  C7. In \<open>index.ts\<close>, with a prefix configured, what reaches the real process's
  standard output is, chunk for chunk, the child's standard-output chunks with the prefix
  and one space in front; likewise for standard error. So every forwarded chunk starts
  with the prefix and a space, and no chunk is merged with or held back for another.
\<close>

theorem C7_prefix_on_every_chunk:
  "truthy_prefix (nprefix_ix options) \<and> nprefix_ix options = Some p \<longrightarrow>
     (let s = run command (shellAsync_ix command options) events
      in process_stdout s = map (prefixTransformStream p) (stdout_chunks events)
         \<and> process_stderr s = map (prefixTransformStream p) (stderr_chunks events)
         \<and> (\<forall>w \<in> set (process_stdout s) \<union> set (process_stderr s). prefix (p @ '' '') w))"
proof (intro impI)
  assume a: "truthy_prefix (nprefix_ix options) \<and> nprefix_ix options = Some p"
  let ?s = "run command (shellAsync_ix command options) events"
  from a have p: "nprefix_ix options = Some p" and t: "truthy_prefix (Some p)"
    by auto
  have out: "process_stdout ?s = map (prefixTransformStream p) (stdout_chunks events)"
    by (simp add: process_stdout_run shellAsync_ix_init p t)
  have err: "process_stderr ?s = map (prefixTransformStream p) (stderr_chunks events)"
    by (simp add: process_stderr_run shellAsync_ix_init p t)
  have "\<forall>w \<in> set (process_stdout ?s) \<union> set (process_stderr ?s). prefix (p @ '' '') w"
    unfolding out err using prefix_prefixTransformStream by auto
  then show "let s = ?s
      in process_stdout s = map (prefixTransformStream p) (stdout_chunks events)
         \<and> process_stderr s = map (prefixTransformStream p) (stderr_chunks events)
         \<and> (\<forall>w \<in> set (process_stdout s) \<union> set (process_stderr s). prefix (p @ '' '') w)"
    unfolding Let_def using out err by blast
qed

text \<open>
  C7, an instance: the prefix \<open>[web]\<close>, two chunks on standard output, one on standard
  error.
\<close>

theorem C7_prefix_on_every_chunk_witness:
  "truthy_prefix (nprefix_ix (example_normalized_ix\<lparr>nprefix_ix := Some ''[web]''\<rparr>))
   \<and> process_stdout (run ''make''
        (shellAsync_ix ''make'' (example_normalized_ix\<lparr>nprefix_ix := Some ''[web]''\<rparr>))
        [StdoutData ''a'', StderrData ''e'', StdoutData ''b'', Close (Some 0)])
      = [''[web] a'', ''[web] b'']
   \<and> process_stderr (run ''make''
        (shellAsync_ix ''make'' (example_normalized_ix\<lparr>nprefix_ix := Some ''[web]''\<rparr>))
        [StdoutData ''a'', StderrData ''e'', StdoutData ''b'', Close (Some 0)])
      = [''[web] e'']
   \<and> prefix (''[web]'' @ '' '') ''[web] a''"
proof -
  let ?o = "example_normalized_ix\<lparr>nprefix_ix := Some ''[web]''\<rparr>"
  have h: "truthy_prefix (nprefix_ix ?o) \<and> nprefix_ix ?o = Some ''[web]''"
    by (simp add: truthy_prefix_def truthy_string_def)
  show ?thesis
    using C7_prefix_on_every_chunk
            [where options = "?o" and p = "''[web]''" and command = "''make''"
               and events = "[StdoutData ''a'', StderrData ''e'', StdoutData ''b'', Close (Some 0)]"]
          h
    by (simp add: Let_def prefixTransformStream_def)
qed

text \<open>
  C8, as amended. When the exec primitive returns, the synchronous runner returns \<open>null\<close>
  exactly when the returned value is falsy, that is \<open>null\<close> or the empty string, and
  otherwise the value's text (passed with the transform through \<open>transformString\<close> when
  one is set, in the second revision). A buffer is never falsy.
\<close>

theorem C8_sync_null_iff_falsy:
  "(n_execSync options command (execSyncOptions options) = Inr buffer
    \<longrightarrow> completion (shellSync transformString command options)
        = Inr (if truthy_value buffer
               then Some (case n_transform options of
                            Some f \<Rightarrow> transformString f (toString buffer)
                          | None \<Rightarrow> toString buffer)
               else None))
   \<and> (execSync_import command (execSyncOptions_ix options_ix) = Inr buffer
    \<longrightarrow> shellSync_ix execSync_import command options_ix
        = Inr (if truthy_value buffer then Some (toString buffer) else None))
   \<and> truthy_value buffer = (buffer \<noteq> Null \<and> buffer \<noteq> Text [])"
proof -
  have t: "truthy_value buffer = (buffer \<noteq> Null \<and> buffer \<noteq> Text [])"
    by (cases buffer) (simp_all add: truthy_value_def truthy_string_def)
  have a: "n_execSync options command (execSyncOptions options) = Inr buffer
    \<longrightarrow> completion (shellSync transformString command options)
        = Inr (if truthy_value buffer
               then Some (case n_transform options of
                            Some f \<Rightarrow> transformString f (toString buffer)
                          | None \<Rightarrow> toString buffer)
               else None)"
    using shellSync_returns [of options command buffer transformString] by blast
  have b: "execSync_import command (execSyncOptions_ix options_ix) = Inr buffer
    \<longrightarrow> shellSync_ix execSync_import command options_ix
        = Inr (if truthy_value buffer then Some (toString buffer) else None)"
    using shellSync_ix_returns [of execSync_import command options_ix buffer] by blast
  show ?thesis
    using t a b by blast
qed

text \<open>
  C8, instances: a primitive that returns the bytes of \<open>echo hi\<close>, one that returns
  \<open>null\<close>, and one that returns the empty string.
\<close>

theorem C8_sync_null_iff_falsy_witness:
  "n_execSync example_normalized ''echo hi'' (execSyncOptions example_normalized)
      = Inr (Buffer (''hi'' @ [newline]))
   \<and> completion (shellSync transformString_spec ''echo hi'' example_normalized) = Inr (Some (''hi'' @ [newline]))
   \<and> shellSync_ix example_execSync ''echo hi'' example_normalized_ix
      = Inr (Some (''hi'' @ [newline]))
   \<and> completion (shellSync transformString_spec ''echo hi''
        (example_normalized\<lparr>n_execSync := \<lambda>command execOptions. Inr Null\<rparr>)) = Inr None
   \<and> shellSync_ix (\<lambda>command execOptions. Inr (Text [])) ''echo hi'' example_normalized_ix
      = Inr None"
proof -
  let ?b = "Buffer (''hi'' @ [newline])"
  let ?o = "example_normalized\<lparr>n_execSync := \<lambda>command execOptions. Inr Null\<rparr>"
  have x: "n_execSync example_normalized ''echo hi'' (execSyncOptions example_normalized) = Inr ?b"
          "example_execSync ''echo hi'' (execSyncOptions_ix example_normalized_ix) = Inr ?b"
          "n_transform example_normalized = None"
          "truthy_value ?b" "toString ?b = ''hi'' @ [newline]"
    by (simp_all add: example_defs truthy_value_def toString_def)
  have first: "completion (shellSync transformString_spec ''echo hi'' example_normalized) = Inr (Some (''hi'' @ [newline]))
     \<and> shellSync_ix example_execSync ''echo hi'' example_normalized_ix
        = Inr (Some (''hi'' @ [newline]))"
    using C8_sync_null_iff_falsy
            [where options = example_normalized and command = "''echo hi''" and buffer = "?b"
               and transformString = transformString_spec
               and execSync_import = example_execSync and options_ix = example_normalized_ix]
          x
    by simp
  have y: "n_execSync ?o ''echo hi'' (execSyncOptions ?o) = Inr Null" "\<not> truthy_value Null"
          "(\<lambda>command execOptions. Inr (Text [])) ''echo hi'' (execSyncOptions_ix example_normalized_ix)
             = (Inr (Text []) :: exec_error + exec_value)"
          "\<not> truthy_value (Text [])"
    by (simp_all add: truthy_value_def truthy_string_def)
  have second: "completion (shellSync transformString_spec ''echo hi'' ?o) = Inr None"
    using C8_sync_null_iff_falsy
            [where options = "?o" and command = "''echo hi''" and buffer = Null
               and transformString = transformString_spec]
          y(1,2)
    by simp
  have third: "shellSync_ix (\<lambda>command execOptions. Inr (Text [])) ''echo hi'' example_normalized_ix
      = Inr None"
    using C8_sync_null_iff_falsy
            [where execSync_import = "\<lambda>command execOptions. Inr (Text [])"
               and command = "''echo hi''" and buffer = "Text []"
               and options_ix = example_normalized_ix]
          y(3,4)
    by simp
  show ?thesis
    using x(1) first second third by simp
qed

text \<open>
  C8 as stated fails: for the command \<open>true\<close>, which writes nothing, the exec primitive
  returns an empty buffer, and \<open>shell\<close> in synchronous mode returns the empty text (and
  echoes it), not \<open>null\<close>.
\<close>

theorem C8_empty_buffer_returns_empty_text:
  "example_execSync ''true''
      (execSyncOptions (normalizedOptions example_process example_execSync
                          (example_options\<lparr>async := False\<rparr>)))
     = Inr (Buffer [])
   \<and> toString (Buffer []) = []
   \<and> shell example_setup transformString_spec example_process example_execSync ''true''
        (example_options\<lparr>async := False\<rparr>)
     = Returned \<lparr>written = [[]], completion = Inr (Some [])\<rparr>"
  by (simp add: shell_def example_defs runner_defs Let_def)

text \<open>
  C9. For every options value the normalized disposition is an array of three entries
  whose first, standard input, is \<open>inherit\<close>: the array is \<open>inherit, ignore, ignore\<close>
  with \<open>nopipe\<close> and \<open>silent\<close>, \<open>inherit, inherit, inherit\<close> with \<open>nopipe\<close> alone, and
  \<open>inherit, pipe, pipe\<close> otherwise. Both runners hand that disposition to Node.
\<close>

theorem C9_stdin_is_inherited:
  "n_stdio (normalizedOptions process execSync_import options) ! 0 = Inherit
   \<and> length (n_stdio (normalizedOptions process execSync_import options)) = 3
   \<and> n_stdio (normalizedOptions process execSync_import options)
     = (if nopipe options \<and> silent options then [Inherit, Ignore, Ignore]
        else if nopipe options then [Inherit, Inherit, Inherit]
        else [Inherit, Pipe, Pipe])
   \<and> stdio_fd (so_stdio (spawnOptions (normalizedOptions process execSync_import options))) 0
     = Inherit
   \<and> stdio_fd (eo_stdio (execSyncOptions (normalizedOptions process execSync_import options))) 0
     = Inherit"
  by (simp add: n_stdio_normalizedOptions spawnOptions_def execSyncOptions_def stdio_fd_def)

text \<open>
  C10, as amended. In \<open>index.ts\<close>, with no prefix configured and no \<open>stdio\<close> given,
  the disposition is \<open>inherit\<close>, the child has no standard-output handle, no \<open>data\<close>
  listener is attached, the captured output stays \<open>null\<close> whatever the command writes,
  the promise never resolves with a text, and a \<open>close\<close> event with exit code 0 that
  finds the promise pending resolves it with \<open>null\<close>.
\<close>

theorem C10_inherit_resolves_null:
  "\<not> truthy_prefix (prefix_ix options) \<and> stdio_ix options = None \<longrightarrow>
     (let normalized = normalizedOptions_ix process options;
          s = shellAsync_ix command normalized
      in nstdio_ix normalized = StdioString Inherit
         \<and> so_stdio (spawnOptions_ix normalized) = StdioString Inherit
         \<and> \<not> child_stdout (node_spawn command (spawnOptions_ix normalized))
         \<and> \<not> data_listener s
         \<and> output0 (run command s events) = None
         \<and> promise (run command s events) \<noteq> Resolved (Some chunk)
         \<and> (promise (run command s before) = Pending
              \<longrightarrow> promise (run command s (before @ Close (Some 0) # after)) = Resolved None))"
proof (intro impI)
  assume a: "\<not> truthy_prefix (prefix_ix options) \<and> stdio_ix options = None"
  let ?n = "normalizedOptions_ix process options"
  let ?s = "shellAsync_ix command ?n"
  have n: "nstdio_ix ?n = StdioString Inherit" "\<not> truthy_prefix (nprefix_ix ?n)"
    using a by (simp_all add: normalizedOptions_ix_def)
  then have io: "so_stdio (spawnOptions_ix ?n) = StdioString Inherit"
    by (simp add: spawnOptions_ix_def)
  then have handle: "\<not> child_stdout (node_spawn command (spawnOptions_ix ?n))"
    by (simp add: node_spawn_def stdio_fd_def)
  then have listener: "\<not> data_listener ?s"
    by (simp add: shellAsync_ix_init)
  have out: "output0 (run command ?s events) = None"
    using listener by (simp add: no_listener_output0 shellAsync_ix_init)
  have never: "promise (run command ?s events) \<noteq> Resolved (Some chunk)"
    using listener by (rule run_resolved_None) (simp_all add: shellAsync_ix_init)
  have close: "promise (run command ?s before) = Pending
      \<longrightarrow> promise (run command ?s (before @ Close (Some 0) # after)) = Resolved None"
    using listener by (simp add: run_close_zero shellAsync_ix_init)
  show "let normalized = ?n; s = shellAsync_ix command normalized
      in nstdio_ix normalized = StdioString Inherit
         \<and> so_stdio (spawnOptions_ix normalized) = StdioString Inherit
         \<and> \<not> child_stdout (node_spawn command (spawnOptions_ix normalized))
         \<and> \<not> data_listener s
         \<and> output0 (run command s events) = None
         \<and> promise (run command s events) \<noteq> Resolved (Some chunk)
         \<and> (promise (run command s before) = Pending
              \<longrightarrow> promise (run command s (before @ Close (Some 0) # after)) = Resolved None)"
    unfolding Let_def using n(1) io handle listener out never close by blast
qed

text \<open>
  C10, an instance: the default options; the command writes a chunk and closes with 0.
\<close>

theorem C10_inherit_resolves_null_witness:
  "\<not> truthy_prefix (prefix_ix example_options_ix) \<and> stdio_ix example_options_ix = None
   \<and> promise (run ''printf hi'' (shellAsync_ix ''printf hi'' example_normalized_ix)
        [StdoutData ''hi'']) = Pending
   \<and> promise (run ''printf hi'' (shellAsync_ix ''printf hi'' example_normalized_ix)
        [StdoutData ''hi'', Close (Some 0)]) = Resolved None
   \<and> \<not> data_listener (shellAsync_ix ''printf hi'' example_normalized_ix)"
proof -
  have h: "\<not> truthy_prefix (prefix_ix example_options_ix) \<and> stdio_ix example_options_ix = None"
    by (simp add: example_options_ix_def truthy_prefix_def)
  have p: "promise (run ''printf hi'' (shellAsync_ix ''printf hi'' example_normalized_ix)
        [StdoutData ''hi'']) = Pending"
    by (simp add: example_defs runner_defs handler_defs Let_def)
  show ?thesis
    using C10_inherit_resolves_null
            [where options = example_options_ix and process = example_process
               and command = "''printf hi''" and before = "[StdoutData ''hi'']" and after = "[]"
               and events = "[]" and chunk = "[]"]
          h p
    by (simp add: Let_def example_normalized_ix_def)
qed

text \<open>
  C10 as stated fails: under the same options plus a timeout, the timer fires before the
  \<open>close\<close> event with exit code 0 is delivered, and the promise is rejected, not resolved
  with \<open>null\<close>.
\<close>

theorem C10_timeout_before_close_rejects:
  "\<not> truthy_prefix (prefix_ix (example_options_ix\<lparr>timeout_ix := Some 100\<rparr>))
   \<and> stdio_ix (example_options_ix\<lparr>timeout_ix := Some 100\<rparr>) = None
   \<and> promise (run example_surviving_command
        (shellAsync_ix example_surviving_command
           (normalizedOptions_ix example_process (example_options_ix\<lparr>timeout_ix := Some 100\<rparr>)))
        [StdoutData ''tick'', Timeout, Close (Some 0)])
     = Rejected (Error ''Command timeout: trap : TERM; printf tick; sleep 1'')"
  by (simp add: example_defs runner_defs error_defs handler_defs Let_def)

end
